theory Spec2Isabelle
  imports Complex_Main "HOL-Library.AList" "HOL-Library.Sublist"
begin

section \<open>Data model\<close>

text \<open>
  A \<^verbatim>\<open>datetime\<close> is a count of microseconds since a fixed origin, a \<^verbatim>\<open>timedelta\<close> a
  (possibly negative) count of microseconds. Python integers are unbounded, hence \<open>int\<close>.
  Python floats are read as exact rationals.
\<close>

type_synonym datetime = int
type_synonym timedelta = int

text \<open>\<^verbatim>\<open>timedelta.days\<close>: Python normalises a timedelta so that the seconds and microseconds
  are non-negative, so the days are the floor of the quotient.\<close>

definition days :: "timedelta \<Rightarrow> int" where
  "days td = td div 86400000000"

definition total_seconds :: "timedelta \<Rightarrow> rat" where
  "total_seconds td = of_int td / 1000000"

definition seconds :: "int \<Rightarrow> timedelta" where
  "seconds n = n * 1000000"

datatype error =
    RequestException
  | InvalidJSON
  | BadTimestamp
  | UndefinedTable
  | InvalidDelta

text \<open>A row of the table \<^verbatim>\<open>github_events\<close>, columns in the order of
  \<^verbatim>\<open>create_events_table\<close>: index 3 is the timestamp, index 4 the type.\<close>

record row =
  row_id :: nat
  row_owner :: string
  row_repo :: string
  event_timestamp :: datetime
  event_type :: string

text \<open>The table with the next value of its \<^verbatim>\<open>SERIAL\<close> column. The database holds the table
  or not.\<close>

record table =
  rows :: "row list"
  serial :: nat

type_synonym db = "table option"

text \<open>An event of the remote feed: \<^verbatim>\<open>created_at\<close> is the result of
  \<^verbatim>\<open>datetime.strptime\<close> on the field (\<open>None\<close> when the string does not have the format and
  \<^verbatim>\<open>strptime\<close> raises), \<^verbatim>\<open>type\<close> is the field as it is.\<close>

record event =
  created_at :: "datetime option"
  ev_type :: string

text \<open>What \<^verbatim>\<open>requests.get\<close> meets: no answer, or an answer with a status code whose body is
  a JSON list of events or is not JSON.\<close>

datatype body = NotJSON | Events "event list"

datatype response = NoResponse | Response nat body

type_synonym repository = "string \<times> string"

section \<open>Aggregator\<close>

definition date_transform_to :: "timedelta \<Rightarrow> string \<Rightarrow> error + rat" where
  "date_transform_to date delta =
     (if delta = ''second'' then Inr (total_seconds date)
      else if delta = ''minute'' then Inr (total_seconds date / 60)
      else if delta = ''hour'' then Inr (total_seconds date / 3600)
      else Inl InvalidDelta)"

text \<open>\<^verbatim>\<open>round(x, 3)\<close> on the exact value: to the nearest multiple of 1/1000, a tie to the
  even one.\<close>

definition round3 :: "rat \<Rightarrow> rat" where
  "round3 x =
     (let y = x * 1000; f = \<lfloor>y\<rfloor>; d = y - of_int f in
      of_int (if d < 1 / 2 then f else if 1 / 2 < d then f + 1
              else if even f then f else f + 1) / 1000)"

text \<open>\<^verbatim>\<open>type_times[timestamp[0]].append(timestamp[1])\<close> on a \<^verbatim>\<open>defaultdict(list)\<close>; a
  dictionary is an association list in insertion order.\<close>

definition append_time :: "string \<times> datetime \<Rightarrow> (string \<times> datetime list) list
    \<Rightarrow> (string \<times> datetime list) list" where
  "append_time timestamp type_times =
     AList.update (fst timestamp)
       ((case map_of type_times (fst timestamp) of None \<Rightarrow> [] | Some ts \<Rightarrow> ts) @ [snd timestamp])
       type_times"

definition deltas_of :: "datetime list \<Rightarrow> timedelta list" where
  "deltas_of tms = map (\<lambda>i. tms ! i - tms ! (i - 1)) [1..<length tms]"

text \<open>\<^verbatim>\<open>sum(map(lambda x: date_transform_to(x, delta), deltas))\<close>, from the left, stopping at
  the first exception.\<close>

fun sum_transformed :: "string \<Rightarrow> timedelta list \<Rightarrow> rat \<Rightarrow> error + rat" where
  "sum_transformed delta [] acc = Inr acc"
| "sum_transformed delta (x # xs) acc =
     (case date_transform_to x delta of
        Inl e \<Rightarrow> Inl e
      | Inr v \<Rightarrow> sum_transformed delta xs (acc + v))"

fun average_times :: "string \<Rightarrow> (string \<times> datetime list) list \<Rightarrow> (string \<times> rat) list
    \<Rightarrow> error + (string \<times> rat) list" where
  "average_times delta [] result = Inr result"
| "average_times delta ((typ, tms) # rest) result =
     (if length tms < 2 then average_times delta rest (AList.update typ 0 result)
      else
        (case sum_transformed delta (deltas_of tms) 0 of
           Inl e \<Rightarrow> Inl e
         | Inr sum_of_deltas \<Rightarrow>
             (let average_time = sum_of_deltas / of_nat (length tms - 1)
              in average_times delta rest (AList.update typ (round3 average_time) result))))"

definition calculate_average_time :: "string \<Rightarrow> row list \<Rightarrow> error + (string \<times> rat) list option" where
  "calculate_average_time delta events =
     (if events = [] then Inr None
      else
        (let timestamps = map (\<lambda>event. (event_type event, event_timestamp event)) events;
             type_times = fold append_time timestamps []
         in case average_times delta type_times [] of
              Inl e \<Rightarrow> Inl e
            | Inr result \<Rightarrow> Inr (Some result)))"

section \<open>Statistics service\<close>

text \<open>\<^verbatim>\<open>SELECT * FROM github_events WHERE owner = ... AND repo = ... ORDER BY event_timestamp
  ASC\<close>; rows of equal timestamp stay in table order.\<close>

definition select_events :: "string \<Rightarrow> string \<Rightarrow> table \<Rightarrow> row list" where
  "select_events owner repo t =
     sort_key event_timestamp (filter (\<lambda>r. row_owner r = owner \<and> row_repo r = repo) (rows t))"

definition get_db_statistics :: "string \<Rightarrow> db \<Rightarrow> string \<Rightarrow> string
    \<Rightarrow> error + (string \<times> rat) list option" where
  "get_db_statistics delta d owner repo =
     (case d of
        None \<Rightarrow> Inl UndefinedTable
      | Some t \<Rightarrow> calculate_average_time delta (select_events owner repo t))"

type_synonym api_result = "(string \<times> (string \<times> rat) list) list"

text \<open>\<^verbatim>\<open>result[repo][typ] = average_time\<close> on a \<^verbatim>\<open>defaultdict(dict)\<close>: a missing key gets
  an empty dictionary first.\<close>

definition set_average :: "string \<Rightarrow> string \<times> rat \<Rightarrow> api_result \<Rightarrow> api_result" where
  "set_average repo item result =
     AList.update repo
       (AList.update (fst item) (snd item) (case map_of result repo of None \<Rightarrow> [] | Some m \<Rightarrow> m))
       result"

fun get_api_statistics_from :: "string \<Rightarrow> db \<Rightarrow> repository list \<Rightarrow> api_result
    \<Rightarrow> error + api_result" where
  "get_api_statistics_from delta d [] result = Inr result"
| "get_api_statistics_from delta d (repository # rest) result =
     (let owner = fst repository; repo = snd repository in
      case get_db_statistics delta d owner repo of
        Inl e \<Rightarrow> Inl e
      | Inr None \<Rightarrow> get_api_statistics_from delta d rest (AList.update repo [] result)
      | Inr (Some statistics) \<Rightarrow>
          (if statistics = [] then get_api_statistics_from delta d rest (AList.update repo [] result)
           else get_api_statistics_from delta d rest (fold (set_average repo) statistics result)))"

definition get_api_statistics :: "string \<Rightarrow> repository list \<Rightarrow> db \<Rightarrow> error + api_result" where
  "get_api_statistics delta repositories d = get_api_statistics_from delta d repositories []"

section \<open>Retention store and update cycle\<close>

definition empty_table :: table where
  "empty_table = \<lparr>rows = [], serial = 1\<rparr>"

text \<open>\<^verbatim>\<open>DROP TABLE github_events\<close> raises when there is no table.\<close>

definition drop_table :: "db \<Rightarrow> error + db" where
  "drop_table d = (case d of None \<Rightarrow> Inl UndefinedTable | Some t \<Rightarrow> Inr None)"

text \<open>\<^verbatim>\<open>CREATE TABLE IF NOT EXISTS\<close>.\<close>

definition create_events_table :: "db \<Rightarrow> db" where
  "create_events_table d = (case d of None \<Rightarrow> Some empty_table | Some t \<Rightarrow> Some t)"

text \<open>\<^verbatim>\<open>SELECT event_timestamp FROM github_events ORDER BY event_timestamp ASC LIMIT 1\<close>: no
  value on an empty table.\<close>

fun oldest_timestamp :: "row list \<Rightarrow> datetime option" where
  "oldest_timestamp [] = None"
| "oldest_timestamp (r # rs) =
     (case oldest_timestamp rs of
        None \<Rightarrow> Some (event_timestamp r)
      | Some m \<Rightarrow> Some (min (event_timestamp r) m))"

text \<open>\<^verbatim>\<open>DELETE ... WHERE p LIMIT 1\<close>, read as it is written: one row that satisfies the
  condition goes, here the first in table order.\<close>

fun delete_first :: "(row \<Rightarrow> bool) \<Rightarrow> row list \<Rightarrow> row list" where
  "delete_first p [] = []"
| "delete_first p (r # rs) = (if p r then rs else r # delete_first p rs)"

definition delete_oldest :: "table \<Rightarrow> table" where
  "delete_oldest t =
     (case oldest_timestamp (rows t) of
        None \<Rightarrow> t
      | Some m \<Rightarrow> t\<lparr>rows := delete_first (\<lambda>r. event_timestamp r = m) (rows t)\<rparr>)"

definition insert_row :: "string \<Rightarrow> string \<Rightarrow> datetime \<Rightarrow> string \<Rightarrow> table \<Rightarrow> table" where
  "insert_row owner repo ts typ t =
     \<lparr>rows = rows t @ [\<lparr>row_id = serial t, row_owner = owner, row_repo = repo,
                         event_timestamp = ts, event_type = typ\<rparr>],
      serial = serial t + 1\<rparr>"

text \<open>\<^verbatim>\<open>get_github_events\<close>: \<^verbatim>\<open>raise_for_status\<close> raises on the codes 400 to 599; both
  exceptions leave the function.\<close>

definition get_github_events :: "(string \<Rightarrow> string \<Rightarrow> response) \<Rightarrow> string \<Rightarrow> string
    \<Rightarrow> error + event list" where
  "get_github_events http owner repo =
     (case http owner repo of
        NoResponse \<Rightarrow> Inl RequestException
      | Response status b \<Rightarrow>
          (if 400 \<le> status \<and> status < 600 then Inl RequestException
           else (case b of NotJSON \<Rightarrow> Inl InvalidJSON | Events events \<Rightarrow> Inr events)))"

text \<open>The body of the inner loop of \<^verbatim>\<open>update_data\<close> on the table and \<^verbatim>\<open>current_count\<close>;
  \<open>cap\<close> is the literal 500 of the source, \<open>now\<close> the reading of the clock.\<close>

definition update_event :: "int \<Rightarrow> datetime \<Rightarrow> repository \<Rightarrow> event \<Rightarrow> table \<times> int
    \<Rightarrow> error + table \<times> int" where
  "update_event cap now repository ev s =
     (case created_at ev of
        None \<Rightarrow> Inl BadTimestamp
      | Some event_datetime \<Rightarrow>
          (let time_difference = now - event_datetime in
           if days time_difference > 7 then Inr s
           else
             (let s1 = (if snd s \<ge> cap then (delete_oldest (fst s), snd s - 1) else s)
              in Inr (insert_row (fst repository) (snd repository) event_datetime (ev_type ev)
                        (fst s1), snd s1 + 1))))"

text \<open>The inner loop; an exception leaves the committed rows as they are.\<close>

fun update_events :: "int \<Rightarrow> datetime \<Rightarrow> repository \<Rightarrow> event list \<Rightarrow> table \<times> int
    \<Rightarrow> (table \<times> int) \<times> error option" where
  "update_events cap now repository [] s = (s, None)"
| "update_events cap now repository (ev # events) s =
     (case update_event cap now repository ev s of
        Inl e \<Rightarrow> (s, Some e)
      | Inr s' \<Rightarrow> update_events cap now repository events s')"

text \<open>The outer loop.\<close>

fun update_repositories :: "int \<Rightarrow> (string \<Rightarrow> string \<Rightarrow> response) \<Rightarrow> datetime
    \<Rightarrow> repository list \<Rightarrow> table \<times> int \<Rightarrow> (table \<times> int) \<times> error option" where
  "update_repositories cap http now [] s = (s, None)"
| "update_repositories cap http now (repository # rest) s =
     (case get_github_events http (fst repository) (snd repository) of
        Inl e \<Rightarrow> (s, Some e)
      | Inr events \<Rightarrow>
          (case update_events cap now repository events s of
             (s', Some e) \<Rightarrow> (s', Some e)
           | (s', None) \<Rightarrow> update_repositories cap http now rest s'))"

definition update_data_with :: "int \<Rightarrow> (string \<Rightarrow> string \<Rightarrow> response) \<Rightarrow> datetime
    \<Rightarrow> repository list \<Rightarrow> db \<Rightarrow> db \<times> (error + string)" where
  "update_data_with cap http now repositories d =
     (case drop_table d of
        Inl e \<Rightarrow> (d, Inl e)
      | Inr d1 \<Rightarrow>
          (case create_events_table d1 of
             None \<Rightarrow> (None, Inl UndefinedTable)
           | Some t \<Rightarrow>
               (case update_repositories cap http now repositories (t, 0) of
                  (s, Some e) \<Rightarrow> (Some (fst s), Inl e)
                | (s, None) \<Rightarrow> (Some (fst s), Inr ''Data were updated.''))))"

definition update_data :: "(string \<Rightarrow> string \<Rightarrow> response) \<Rightarrow> datetime \<Rightarrow> repository list \<Rightarrow> db
    \<Rightarrow> db \<times> (error + string)" where
  "update_data = update_data_with 500"


section \<open>The events of a cycle\<close>






section \<open>The aggregator as the specification words it\<close>

text \<open>The configured unit is one of three strings; the length of one unit in seconds.\<close>

definition valid_delta :: "string \<Rightarrow> bool" where
  "valid_delta delta \<longleftrightarrow> delta = ''second'' \<or> delta = ''minute'' \<or> delta = ''hour''"

definition unit_seconds :: "string \<Rightarrow> rat" where
  "unit_seconds delta = (if delta = ''second'' then 1 else if delta = ''minute'' then 60 else 3600)"

text \<open>The specification's average for one type: the deltas \<open>ts[i] - ts[i-1]\<close> for
  \<open>i = 1..n-1\<close>, each converted to the unit, averaged over the \<open>n - 1\<close> deltas, and only the
  average rounded.\<close>

definition spec_average :: "string \<Rightarrow> datetime list \<Rightarrow> rat" where
  "spec_average delta ts =
     round3 ((\<Sum>i\<leftarrow>[1..<length ts]. total_seconds (ts ! i - ts ! (i - 1)) / unit_seconds delta)
             / of_nat (length ts - 1))"

text \<open>What one type is mapped to.\<close>

definition average_of :: "string \<Rightarrow> datetime list \<Rightarrow> rat" where
  "average_of delta tms = (if length tms < 2 then 0 else spec_average delta tms)"

section \<open>Example data\<close>

definition example_row :: "int \<Rightarrow> string \<Rightarrow> row" where
  "example_row t ty = \<lparr>row_id = 0, row_owner = ''octocat'', row_repo = ''hello'',
     event_timestamp = seconds t, event_type = ty\<rparr>"

definition example_event :: "int \<Rightarrow> event" where
  "example_event t = \<lparr>created_at = Some (seconds t), ev_type = ''PushEvent''\<rparr>"

definition example_feed :: "event list \<Rightarrow> string \<Rightarrow> string \<Rightarrow> response" where
  "example_feed events owner repo =
     (if owner = ''octocat'' \<and> repo = ''hello'' then Response 200 (Events events)
      else Response 404 NotJSON)"

definition example_stored :: "nat \<Rightarrow> int \<Rightarrow> row" where
  "example_stored i t = \<lparr>row_id = i, row_owner = ''octocat'', row_repo = ''hello'',
     event_timestamp = seconds t, event_type = ''PushEvent''\<rparr>"

section \<open>Properties of the aggregator\<close>

lemma date_transform_to_valid:
  "valid_delta delta \<Longrightarrow> date_transform_to x delta = Inr (total_seconds x / unit_seconds delta)"
  by (auto simp: valid_delta_def date_transform_to_def unit_seconds_def)

lemma sum_transformed_valid:
  "valid_delta delta \<Longrightarrow>
   sum_transformed delta xs acc = Inr (acc + (\<Sum>x\<leftarrow>xs. total_seconds x / unit_seconds delta))"
  by (induction xs arbitrary: acc) (simp_all add: date_transform_to_valid)

lemma average_times_valid:
  "valid_delta delta \<Longrightarrow>
   average_times delta tts result =
     Inr (fold (\<lambda>p r. AList.update (fst p) (average_of delta (snd p)) r) tts result)"
proof (induction tts arbitrary: result)
  case Nil
  then show ?case by simp
next
  case (Cons p tts)
  obtain ty tms where p: "p = (ty, tms)" by (cases p)
  show ?case
    using Cons.prems
    by (simp add: p Cons.IH sum_transformed_valid average_of_def spec_average_def deltas_of_def
        Let_def comp_def)
qed

lemma fold_update_lookup:
  "distinct (map fst tts) \<Longrightarrow>
   map_of (fold (\<lambda>p r. AList.update (fst p) (f (snd p)) r) tts result) k =
     (case map_of tts k of None \<Rightarrow> map_of result k | Some v \<Rightarrow> Some (f v))"
proof (induction tts arbitrary: result k)
  case Nil
  then show ?case by simp
next
  case (Cons p tts)
  have notin: "map_of tts (fst p) = None"
    using Cons.prems by (simp add: map_of_eq_None_iff)
  show ?case
    using Cons.prems notin
    by (cases "k = fst p") (simp_all add: Cons.IH update_conv' split: option.split)
qed

lemma fold_update_distinct:
  "distinct (map fst result) \<Longrightarrow>
   distinct (map fst (fold (\<lambda>p r. AList.update (fst p) (f (snd p)) r) tts result))"
  by (induction tts arbitrary: result) (simp_all add: distinct_update)

lemma append_time_conv:
  "map_of (append_time x tt) =
     (map_of tt)(fst x \<mapsto> (case map_of tt (fst x) of None \<Rightarrow> [] | Some l \<Rightarrow> l) @ [snd x])"
  by (simp add: append_time_def update_conv')

lemma append_time_keys:
  "distinct (map fst tt) \<Longrightarrow> distinct (map fst (append_time x tt))"
  by (simp add: append_time_def distinct_update)

lemma append_time_lookup:
  "map_of (fold append_time xs tt) k =
     (if filter (\<lambda>x. fst x = k) xs = [] then map_of tt k
      else Some ((case map_of tt k of None \<Rightarrow> [] | Some l \<Rightarrow> l) @ map snd (filter (\<lambda>x. fst x = k) xs)))"
proof (induction xs arbitrary: tt)
  case Nil
  then show ?case by simp
next
  case (Cons x xs)
  show ?case
    by (simp add: Cons.IH append_time_conv)
qed

lemma append_time_distinct:
  "distinct (map fst tt) \<Longrightarrow> distinct (map fst (fold append_time xs tt))"
  by (induction xs arbitrary: tt) (simp_all add: append_time_keys)

lemma type_times_lookup:
  "map_of (fold append_time (map (\<lambda>event. (event_type event, event_timestamp event)) events) []) typ =
     (if filter (\<lambda>e. event_type e = typ) events = [] then None
      else Some (map event_timestamp (filter (\<lambda>e. event_type e = typ) events)))"
  by (simp add: append_time_lookup filter_map comp_def)

lemma calculate_average_time_lookup:
  assumes "valid_delta delta" and "events \<noteq> []"
  shows "\<exists>result. calculate_average_time delta events = Inr (Some result) \<and>
           distinct (map fst result) \<and>
           (\<forall>typ. map_of result typ =
             (if filter (\<lambda>e. event_type e = typ) events = [] then None
              else Some (average_of delta (map event_timestamp (filter (\<lambda>e. event_type e = typ) events)))))"
proof -
  let ?tt = "fold append_time (map (\<lambda>event. (event_type event, event_timestamp event)) events) []"
  let ?res = "fold (\<lambda>p r. AList.update (fst p) (average_of delta (snd p)) r) ?tt []"
  have d: "distinct (map fst ?tt)" by (rule append_time_distinct) simp
  have c: "calculate_average_time delta events = Inr (Some ?res)"
    using assms by (simp add: calculate_average_time_def average_times_valid)
  have l: "map_of ?res ty =
             (if filter (\<lambda>e. event_type e = ty) events = [] then None
              else Some (average_of delta (map event_timestamp (filter (\<lambda>e. event_type e = ty) events))))" for ty
    by (simp add: fold_update_lookup [OF d] type_times_lookup)
  have dr: "distinct (map fst ?res)"
    by (rule fold_update_distinct) simp
  show ?thesis using c l dr by blast
qed







text \<open>
  C5. For a valid unit and every event type that occurs in the input with fewer than two
  events, the aggregator returns a mapping in which the type has the value 0.
\<close>

theorem single_event_average_zero:
  assumes "valid_delta delta"
    and "ty \<in> event_type ` set events"
    and "length (filter (\<lambda>e. event_type e = ty) events) < 2"
  shows "\<exists>result. calculate_average_time delta events = Inr (Some result) \<and>
           map_of result ty = Some 0"
proof -
  from assms(2) have ne: "events \<noteq> []" and fne: "filter (\<lambda>e. event_type e = ty) events \<noteq> []"
    by (auto simp: filter_empty_conv)
  from calculate_average_time_lookup [OF assms(1) ne]
  obtain result where r: "calculate_average_time delta events = Inr (Some result)"
    and l: "\<And>k. map_of result k =
             (if filter (\<lambda>e. event_type e = k) events = [] then None
              else Some (average_of delta (map event_timestamp (filter (\<lambda>e. event_type e = k) events))))"
    by blast
  have "map_of result ty = Some 0"
    using l [of ty] fne assms(3) by (simp add: average_of_def)
  with r show ?thesis by blast
qed

theorem single_event_average_zero_witness:
  "valid_delta ''hour'' \<and>
   ''ForkEvent'' \<in> event_type ` set [example_row 0 ''PushEvent'', example_row 30 ''ForkEvent'',
      example_row 60 ''PushEvent''] \<and>
   length (filter (\<lambda>e. event_type e = ''ForkEvent'')
     [example_row 0 ''PushEvent'', example_row 30 ''ForkEvent'', example_row 60 ''PushEvent'']) < 2 \<and>
   (\<exists>result. calculate_average_time ''hour''
       [example_row 0 ''PushEvent'', example_row 30 ''ForkEvent'', example_row 60 ''PushEvent'']
         = Inr (Some result) \<and>
      map_of result ''ForkEvent'' = Some 0)"
proof -
  let ?evs = "[example_row 0 ''PushEvent'', example_row 30 ''ForkEvent'', example_row 60 ''PushEvent'']"
  have h1: "valid_delta ''hour''" by (simp add: valid_delta_def)
  have h2: "''ForkEvent'' \<in> event_type ` set ?evs" by (simp add: example_row_def)
  have h3: "length (filter (\<lambda>e. event_type e = ''ForkEvent'') ?evs) < 2"
    by (simp add: example_row_def)
  from single_event_average_zero [OF h1 h2 h3] h1 h2 h3 show ?thesis by simp
qed




section \<open>Properties of the retention store and the update cycle\<close>






















text \<open>
  C2. The gate of the loop body compares whole days: an event of age 7 days and 1 second has
  \<^verbatim>\<open>time_difference.days = 7\<close> and is inserted, though it is older than 7 days.
\<close>

theorem stale_event_kept:
  "days (seconds (7 * 86400 + 1) - 0) = 7 \<and>
   update_event 500 (seconds (7 * 86400 + 1)) (''octocat'', ''hello'')
     \<lparr>created_at = Some 0, ev_type = ''PushEvent''\<rparr> (empty_table, 0)
     = Inr (\<lparr>rows = [example_stored 1 0], serial = 2\<rparr>, 1)"
  by (simp add: update_event_def example_stored_def empty_table_def
        insert_row_def days_def seconds_def Let_def)




lemma update_repositories_append:
  "update_repositories cap http now (xs @ ys) s =
     (case update_repositories cap http now xs s of
        (s', Some e) \<Rightarrow> (s', Some e)
      | (s', None) \<Rightarrow> update_repositories cap http now ys s')"
  by (induction xs arbitrary: s) (auto split: sum.splits prod.splits option.splits)

text \<open>
  C7. When the cycle over the repositories \<open>before\<close> succeeds and the fetch for the next
  repository fails with \<open>e\<close>, the cycle over \<open>before @ failing # later\<close> returns \<open>e\<close> and
  leaves exactly the store that the cycle over \<open>before\<close> leaves: nothing of \<open>later\<close> is
  processed and nothing is rolled back.
\<close>

theorem fetch_failure_aborts:
  assumes "update_data http now before d = (d1, Inr msg)"
    and "get_github_events http (fst failing) (snd failing) = Inl e"
  shows "update_data http now (before @ failing # later) d = (d1, Inl e)"
proof (cases d)
  case None
  with assms(1) show ?thesis
    by (simp add: update_data_def update_data_with_def drop_table_def)
next
  case (Some t0)
  obtain s out where u: "update_repositories 500 http now before (empty_table, 0) = (s, out)"
    by (cases "update_repositories 500 http now before (empty_table, 0)")
  from assms(1) have out: "out = None" and d1: "d1 = Some (fst s)"
    by (cases out; simp add: Some update_data_def update_data_with_def drop_table_def
        create_events_table_def u)+
  have "update_repositories 500 http now (before @ failing # later) (empty_table, 0) = (s, Some e)"
    by (simp add: update_repositories_append u out assms(2))
  then show ?thesis
    by (simp add: Some update_data_def update_data_with_def drop_table_def
        create_events_table_def d1)
qed

theorem fetch_failure_aborts_witness:
  "update_data (example_feed [example_event 5]) (seconds 10) [(''octocat'', ''hello'')]
     (Some empty_table)
     = (Some \<lparr>rows = [example_stored 1 5], serial = 2\<rparr>, Inr ''Data were updated.'') \<and>
   get_github_events (example_feed [example_event 5]) (fst (''nobody'', ''missing''))
     (snd (''nobody'', ''missing'')) = Inl RequestException \<and>
   update_data (example_feed [example_event 5]) (seconds 10)
     ([(''octocat'', ''hello'')] @ (''nobody'', ''missing'') # [(''octocat'', ''hello'')])
     (Some empty_table)
     = (Some \<lparr>rows = [example_stored 1 5], serial = 2\<rparr>, Inl RequestException)"
proof -
  have h1: "update_data (example_feed [example_event 5]) (seconds 10) [(''octocat'', ''hello'')]
     (Some empty_table)
     = (Some \<lparr>rows = [example_stored 1 5], serial = 2\<rparr>, Inr ''Data were updated.'')"
    by (simp add: update_data_def update_data_with_def drop_table_def create_events_table_def
        get_github_events_def example_feed_def update_event_def example_event_def
        example_stored_def empty_table_def insert_row_def days_def seconds_def Let_def)
  have h2: "get_github_events (example_feed [example_event 5]) (fst (''nobody'', ''missing''))
     (snd (''nobody'', ''missing'')) = Inl RequestException"
    by (simp add: get_github_events_def example_feed_def)
  from fetch_failure_aborts [OF h1 h2, of "[(''octocat'', ''hello'')]"] h1 h2
  show ?thesis by simp
qed



end
